theory Spec2Isabelle
  imports Main "HOL-Library.Product_Lexorder"
begin

section \<open>JavaScript strings\<close>

text \<open>
  A JavaScript string is a sequence of UTF-16 code units. None of the regular expressions
  of the repository carries the \<open>u\<close> flag, so every string operation of the sources works
  on code units; a code unit is modelled by its numeric value. ASCII literals are written
  with \<open>str\<close>, other characters by their code unit.
\<close>

type_synonym jstr = "nat list"

definition str :: "string \<Rightarrow> jstr" where
  "str s = map of_char s"

text \<open>
  White space as \<open>String.prototype.trim\<close> and the class \<open>\s\<close> see it: the WhiteSpace
  and LineTerminator code points of ECMAScript.
\<close>

definition isSpace :: "nat \<Rightarrow> bool" where
  "isSpace c = (c = 0x9 \<or> c = 0xA \<or> c = 0xB \<or> c = 0xC \<or> c = 0xD \<or> c = 0x20 \<or> c = 0xA0
     \<or> c = 0x1680 \<or> (0x2000 \<le> c \<and> c \<le> 0x200A) \<or> c = 0x2028 \<or> c = 0x2029
     \<or> c = 0x202F \<or> c = 0x205F \<or> c = 0x3000 \<or> c = 0xFEFF)"

definition trimStart :: "jstr \<Rightarrow> jstr" where
  "trimStart s = dropWhile isSpace s"

definition trimEnd :: "jstr \<Rightarrow> jstr" where
  "trimEnd s = rev (dropWhile isSpace (rev s))"

definition trim :: "jstr \<Rightarrow> jstr" where
  "trim s = trimEnd (trimStart s)"

text \<open>\<open>xs.join(sep)\<close> and \<open>s.split("\n")\<close>; splitting the empty string gives one empty piece.\<close>

fun join :: "jstr \<Rightarrow> jstr list \<Rightarrow> jstr" where
  "join sep [] = []"
| "join sep [x] = x"
| "join sep (x # y # ys) = x @ sep @ join sep (y # ys)"

fun splitOn :: "nat \<Rightarrow> jstr \<Rightarrow> jstr list" where
  "splitOn d [] = [[]]"
| "splitOn d (c # cs) =
     (if c = d then [] # splitOn d cs
      else (case splitOn d cs of [] \<Rightarrow> [[c]] | l # ls \<Rightarrow> (c # l) # ls))"

section \<open>Regular expressions\<close>

text \<open>
  The sources do their text processing with regular expressions. They are embedded as
  syntax trees, and matching is the backtracking search of ECMAScript: \<open>ends r f st\<close>
  lists the states in which a match of \<open>r\<close> started in state \<open>st\<close> can end, in the order
  in which the backtracking matcher tries them, so the head of the list is the match the
  engine reports. A state holds the code unit before the position (for \<open>^\<close>), the text
  from the position on, and the text of the capture group.

  Quantifiers are built from \<open>Star\<close> (its flag is \<open>True\<close> for the greedy form):
  \<open>r?\<close> is \<open>Opt r\<close>, \<open>r+\<close> is \<open>Plus r\<close>, \<open>r{1,3}\<close> is \<open>r(r(r)?)?\<close>. With the flag
  \<open>i\<close> two code units are compared after ASCII upper-casing, which is what Canonicalize
  amounts to for the characters that occur in the patterns of this repository.
\<close>

record flags =
  ignoreCase :: bool
  multiline :: bool

datatype re = Eps | Chr nat | Cls bool "(nat \<times> nat) list" | Dot
  | Seq re re | Alt re re | Star bool re | Bol | Eol | Look re | Grp re

record mst =
  before :: "nat option"
  rest :: jstr
  cap :: "jstr option"

definition isLineTerminator :: "nat \<Rightarrow> bool" where
  "isLineTerminator c = (c = 0xA \<or> c = 0xD \<or> c = 0x2028 \<or> c = 0x2029)"

definition toUpper :: "nat \<Rightarrow> nat" where
  "toUpper c = (if 0x61 \<le> c \<and> c \<le> 0x7A then c - 0x20 else c)"

definition toLower :: "nat \<Rightarrow> nat" where
  "toLower c = (if 0x41 \<le> c \<and> c \<le> 0x5A then c + 0x20 else c)"

definition sameChar :: "flags \<Rightarrow> nat \<Rightarrow> nat \<Rightarrow> bool" where
  "sameChar f c x = (if ignoreCase f then toUpper c = toUpper x else c = x)"

definition inRanges :: "(nat \<times> nat) list \<Rightarrow> nat \<Rightarrow> bool" where
  "inRanges rs x = list_ex (\<lambda>(lo, hi). lo \<le> x \<and> x \<le> hi) rs"

definition inClass :: "flags \<Rightarrow> bool \<Rightarrow> (nat \<times> nat) list \<Rightarrow> nat \<Rightarrow> bool" where
  "inClass f neg rs x =
     (let m = (inRanges rs x \<or> (ignoreCase f \<and> (inRanges rs (toUpper x) \<or> inRanges rs (toLower x))))
      in if neg then \<not> m else m)"

definition step :: "(nat \<Rightarrow> bool) \<Rightarrow> mst \<Rightarrow> mst list" where
  "step P st = (case rest st of [] \<Rightarrow> []
     | x # xs \<Rightarrow> if P x then [st\<lparr>before := Some x, rest := xs\<rparr>] else [])"

text \<open>
  The iterations of a starred expression. An iteration that consumes nothing is rejected,
  as the matcher does, so the remaining length bounds the number of iterations.
\<close>

fun iter :: "nat \<Rightarrow> bool \<Rightarrow> (mst \<Rightarrow> mst list) \<Rightarrow> mst \<Rightarrow> mst list" where
  "iter 0 g body st = [st]"
| "iter (Suc n) g body st =
     (let more = concat (map (iter n g body)
                   (filter (\<lambda>e. length (rest e) < length (rest st)) (body st)))
      in if g then more @ [st] else st # more)"

definition atBol :: "flags \<Rightarrow> mst \<Rightarrow> bool" where
  "atBol f st = (case before st of None \<Rightarrow> True | Some p \<Rightarrow> multiline f \<and> isLineTerminator p)"

definition atEol :: "flags \<Rightarrow> mst \<Rightarrow> bool" where
  "atEol f st = (case rest st of [] \<Rightarrow> True | x # xs \<Rightarrow> multiline f \<and> isLineTerminator x)"

primrec ends :: "re \<Rightarrow> flags \<Rightarrow> mst \<Rightarrow> mst list" where
  "ends Eps f = (\<lambda>st. [st])"
| "ends (Chr c) f = step (sameChar f c)"
| "ends (Cls neg rs) f = step (inClass f neg rs)"
| "ends Dot f = step (\<lambda>x. \<not> isLineTerminator x)"
| "ends (Seq a b) f = (\<lambda>st. concat (map (ends b f) (ends a f st)))"
| "ends (Alt a b) f = (\<lambda>st. ends a f st @ ends b f st)"
| "ends (Star g r) f = (\<lambda>st. iter (length (rest st)) g (ends r f) st)"
| "ends Bol f = (\<lambda>st. if atBol f st then [st] else [])"
| "ends Eol f = (\<lambda>st. if atEol f st then [st] else [])"
| "ends (Look r) f = (\<lambda>st. if ends r f st = [] then [] else [st])"
| "ends (Grp r) f =
     (\<lambda>st. map (\<lambda>e. e\<lparr>cap := Some (take (length (rest st) - length (rest e)) (rest st))\<rparr>)
            (ends r f st))"

definition matchAt :: "re \<Rightarrow> flags \<Rightarrow> nat option \<Rightarrow> jstr \<Rightarrow> mst option" where
  "matchAt r f p s =
     (case ends r f \<lparr>before = p, rest = s, cap = None\<rparr> of [] \<Rightarrow> None | e # es \<Rightarrow> Some e)"

fun Lit :: "jstr \<Rightarrow> re" where
  "Lit [] = Eps"
| "Lit [c] = Chr c"
| "Lit (c # cs) = Seq (Chr c) (Lit cs)"

fun Seqs :: "re list \<Rightarrow> re" where
  "Seqs [] = Eps"
| "Seqs [r] = r"
| "Seqs (r # rs) = Seq r (Seqs rs)"

fun Alts :: "re list \<Rightarrow> re" where
  "Alts [] = Eps"
| "Alts [r] = r"
| "Alts (r # rs) = Alt r (Alts rs)"

definition Opt :: "re \<Rightarrow> re" where
  "Opt r = Alt r Eps"

definition Plus :: "re \<Rightarrow> re" where
  "Plus r = Seq r (Star True r)"

text \<open>
  \<open>re.exec\<close>, \<open>s.match(re)\<close> and \<open>re.test\<close> without the flag \<open>g\<close>: the first position,
  from the left, at which the expression matches.
\<close>

fun execFirst :: "re \<Rightarrow> flags \<Rightarrow> nat option \<Rightarrow> jstr \<Rightarrow> mst option" where
  "execFirst r f p [] = matchAt r f p []"
| "execFirst r f p (c # cs) =
     (case matchAt r f p (c # cs) of Some e \<Rightarrow> Some e | None \<Rightarrow> execFirst r f (Some c) cs)"

definition test :: "re \<Rightarrow> flags \<Rightarrow> jstr \<Rightarrow> bool" where
  "test r f s = (case execFirst r f None s of None \<Rightarrow> False | Some e \<Rightarrow> True)"

text \<open>\<open>s.replace(re, repl)\<close> without the flag \<open>g\<close> replaces the first match only.\<close>

fun replaceFirst :: "re \<Rightarrow> flags \<Rightarrow> jstr \<Rightarrow> nat option \<Rightarrow> jstr \<Rightarrow> jstr" where
  "replaceFirst r f repl p [] = (case matchAt r f p [] of None \<Rightarrow> [] | Some e \<Rightarrow> repl)"
| "replaceFirst r f repl p (c # cs) =
     (case matchAt r f p (c # cs) of
        Some e \<Rightarrow> repl @ rest e
      | None \<Rightarrow> c # replaceFirst r f repl (Some c) cs)"

text \<open>
  With the flag \<open>g\<close> the text is scanned from the left for successive matches: the scan
  resumes where a match ended, and one code unit further on after an empty match. The
  last argument of \<open>scan\<close> counts the code units of the current match still to be skipped.
\<close>

datatype tok = Keep nat | Match jstr "jstr option"

fun scan :: "re \<Rightarrow> flags \<Rightarrow> nat option \<Rightarrow> jstr \<Rightarrow> nat \<Rightarrow> tok list" where
  "scan r f p [] k =
     (if k = 0 then (case matchAt r f p [] of None \<Rightarrow> [] | Some e \<Rightarrow> [Match [] (cap e)])
      else [])"
| "scan r f p (c # cs) k =
     (if 0 < k then scan r f (Some c) cs (k - 1)
      else (case matchAt r f p (c # cs) of
              None \<Rightarrow> Keep c # scan r f (Some c) cs 0
            | Some e \<Rightarrow>
                (let n = length (c # cs) - length (rest e)
                 in Match (take n (c # cs)) (cap e) #
                    (if n = 0 then Keep c # scan r f (Some c) cs 0
                     else scan r f (Some c) cs (n - 1)))))"

definition replaceAll :: "re \<Rightarrow> flags \<Rightarrow> jstr \<Rightarrow> jstr \<Rightarrow> jstr" where
  "replaceAll r f repl s =
     concat (map (\<lambda>t. case t of Keep c \<Rightarrow> [c] | Match m g \<Rightarrow> repl) (scan r f None s 0))"

text \<open>
  The loop \<open>while ((m = re.exec(s))) ...\<close> over a global expression visits the same
  matches. It does not advance after an empty match and would then run forever, which is
  the result \<open>None\<close>.
\<close>

fun matchesOf :: "tok list \<Rightarrow> (jstr \<times> jstr option) list option" where
  "matchesOf [] = Some []"
| "matchesOf (Keep c # ts) = matchesOf ts"
| "matchesOf (Match m g # ts) =
     (if m = [] then None
      else (case matchesOf ts of None \<Rightarrow> None | Some ms \<Rightarrow> Some ((m, g) # ms)))"

definition execAll :: "re \<Rightarrow> flags \<Rightarrow> jstr \<Rightarrow> (jstr \<times> jstr option) list option" where
  "execAll r f s = matchesOf (scan r f None s 0)"

definition noFlags :: flags where
  "noFlags = \<lparr>ignoreCase = False, multiline = False\<rparr>"

definition flags_m :: flags where
  "flags_m = \<lparr>ignoreCase = False, multiline = True\<rparr>"

definition flags_i :: flags where
  "flags_i = \<lparr>ignoreCase = True, multiline = False\<rparr>"

definition flags_im :: flags where
  "flags_im = \<lparr>ignoreCase = True, multiline = True\<rparr>"

definition code :: "char \<Rightarrow> nat" where
  "code c = of_char c"

definition one :: "nat \<Rightarrow> nat \<times> nat" where
  "one c = (c, c)"

definition cls_s :: "(nat \<times> nat) list" where
  "cls_s = [(0x9, 0xD), one 0x20, one 0xA0, one 0x1680, (0x2000, 0x200A), (0x2028, 0x2029),
            one 0x202F, one 0x205F, one 0x3000, one 0xFEFF]"

definition cls_d :: "(nat \<times> nat) list" where
  "cls_d = [(0x30, 0x39)]"

definition cls_w :: "(nat \<times> nat) list" where
  "cls_w = [(0x41, 0x5A), (0x61, 0x7A), (0x30, 0x39), one 0x5F]"

definition spaces :: re where
  "spaces = Star True (Cls False cls_s)"

definition anything :: re where
  "anything = Cls True []"

definition NL :: re where
  "NL = Chr 0xA"

section \<open>Segmenting and sanitizing: \<open>src/lib/text.ts\<close>\<close>

subsection \<open>\<open>splitNumberedBlocks\<close>\<close>

record block =
  index :: nat
  blockText :: jstr

text \<open>
  The character class of the numbering separator, \<open>[\.|\u3002|\)|\uFF09|\u3001|\-]\<close> (the
  characters outside ASCII are written here by their code units), as the source writes
  it: inside the brackets the bar is a member of the class like the other characters.
\<close>

definition separators :: "(nat \<times> nat) list" where
  "separators = [one (code CHR ''.''), one (code CHR ''|''), one 0x3002, one (code CHR '')''),
                 one 0xFF09, one 0x3001, one (code CHR ''-'')]"

text \<open>
  \<open>/^(\s*)(\d{1,3})([\.|\u3002|\)|\uFF09|\u3001|\-]{1})\s*/\<close>. Its groups are not read for
  the result: \<open>currentIndex\<close>, which takes the second one, is never used.
\<close>

definition numberRegex :: re where
  "numberRegex = Seqs [Bol, spaces,
      Cls False cls_d, Opt (Seq (Cls False cls_d) (Opt (Cls False cls_d))),
      Cls False separators, spaces]"

text \<open>\<open>/^\s*\d+[\.|\u3002|\)|\uFF09|\u3001|\-]/m\<close>, tested on the whole input before the fallback.\<close>

definition detectRegex :: re where
  "detectRegex = Seqs [Bol, spaces, Plus (Cls False cls_d), Cls False separators]"

text \<open>\<open>/\r\n?/g\<close>\<close>

definition crlfRegex :: re where
  "crlfRegex = Seq (Chr 0xD) (Opt NL)"

definition flush :: "jstr list \<Rightarrow> block list \<Rightarrow> block list" where
  "flush current blocks =
     (let t = trim (join [0xA] current)
      in if t = [] then blocks else blocks @ [\<lparr>index = length blocks + 1, blockText = t\<rparr>])"

text \<open>The loop over the lines; its state is \<open>current\<close> and \<open>blocks\<close>.\<close>

fun splitLoop :: "jstr list \<Rightarrow> jstr list \<Rightarrow> block list \<Rightarrow> block list" where
  "splitLoop [] current blocks = flush current blocks"
| "splitLoop (line # lines) current blocks =
     (case execFirst numberRegex noFlags None line of
        Some m \<Rightarrow>
          splitLoop lines [trim (replaceFirst numberRegex noFlags [] None line)]
            (if current = [] then blocks else flush current blocks)
      | None \<Rightarrow> splitLoop lines (current @ [line]) blocks)"

definition renumber :: "block list \<Rightarrow> block list" where
  "renumber bs = map (\<lambda>(i, b). \<lparr>index = i + 1, blockText = blockText b\<rparr>) (enumerate 0 bs)"

definition splitNumberedBlocks :: "jstr \<Rightarrow> block list" where
  "splitNumberedBlocks input =
     (let lines = splitOn 0xA (replaceAll crlfRegex noFlags [0xA] input);
          blocks = splitLoop lines [] []
      in if length blocks = 1 \<and> \<not> test detectRegex flags_m input
         then [\<lparr>index = 1, blockText = trim input\<rparr>]
         else renumber (filter (\<lambda>b. 0 < length (blockText b))
                (map (\<lambda>b. b\<lparr>blockText := trim (blockText b)\<rparr>) blocks)))"

subsection \<open>\<open>stripThinking\<close>\<close>

definition kw_thinking :: re where "kw_thinking = Lit (str ''thinking'')"
definition kw_think :: re where "kw_think = Lit (str ''think'')"
definition kw_thought :: re where "kw_thought = Lit (str ''thought'')"
definition kw_thoughts :: re where "kw_thoughts = Lit (str ''thoughts'')"
definition kw_thoughts_opt :: re where "kw_thoughts_opt = Seq (Lit (str ''thought'')) (Opt (Chr (code CHR ''s'')))"
definition kw_analysis :: re where "kw_analysis = Lit (str ''analysis'')"
definition kw_reasoning :: re where "kw_reasoning = Lit (str ''reasoning'')"
definition kw_sikao :: re where "kw_sikao = Lit [0x601D, 0x8003]"
definition kw_tuili :: re where "kw_tuili = Lit [0x63A8, 0x7406]"
definition kw_xiangfa :: re where "kw_xiangfa = Lit [0x60F3, 0x6CD5]"
definition kw_buzhou :: re where "kw_buzhou = Lit [0x6B65, 0x9AA4]"
definition kw_jihua :: re where "kw_jihua = Lit [0x8BA1, 0x5212]"
definition kw_fenjie :: re where "kw_fenjie = Lit [0x5206, 0x89E3]"

definition fence :: re where
  "fence = Lit (str ''```'')"

text \<open>\<open>/```(?:thinking|think|thought|thoughts|analysis|reasoning)[\s\S]*?```/gi\<close>\<close>

definition fenceRegex :: re where
  "fenceRegex = Seqs [fence,
      Alts [kw_thinking, kw_think, kw_thought, kw_thoughts, kw_analysis, kw_reasoning],
      Star False anything, fence]"

definition tagNames :: re where
  "tagNames = Alts [kw_think, kw_thinking, kw_analysis, kw_reasoning]"

text \<open>\<open>/<\/?(?:think|thinking|analysis|reasoning)>[\s\S]*?<\/(?:think|thinking|analysis|reasoning)>/gi\<close>\<close>

definition tagRegex :: re where
  "tagRegex = Seqs [Chr (code CHR ''<''), Opt (Chr (code CHR ''/'')), tagNames, Chr (code CHR ''>''),
      Star False anything, Lit (str ''</''), tagNames, Chr (code CHR ''>'')]"

text \<open>\<open>/<\s*(?:think|thinking|analysis|reasoning)[^>]*>[\s\S]*?<\s*\/\s*(?:think|thinking|analysis|reasoning)\s*>/gi\<close>\<close>

definition looseTagRegex :: re where
  "looseTagRegex = Seqs [Chr (code CHR ''<''), spaces, tagNames,
      Star True (Cls True [one (code CHR ''>'')]), Chr (code CHR ''>''),
      Star False anything,
      Chr (code CHR ''<''), spaces, Chr (code CHR ''/''), spaces, tagNames, spaces,
      Chr (code CHR ''>'')]"

text \<open>
  \<open>/^(?:\s*(?:\*+\s*)?(?:thinking|thoughts?|analysis|reasoning|\u601D\u8003|\u63A8\u7406|\u60F3\u6CD5)[:\uFF1A\.\-]*\s*\n[\s\S]*?)(?=\n{2,}|$)/gim\<close>
\<close>

definition thinkingHeadRegex :: re where
  "thinkingHeadRegex = Seqs [Bol, spaces,
      Opt (Seq (Plus (Chr (code CHR ''*''))) spaces),
      Alts [kw_thinking, kw_thoughts_opt, kw_analysis, kw_reasoning, kw_sikao, kw_tuili, kw_xiangfa],
      Star True (Cls False [one (code CHR '':''), one 0xFF1A, one (code CHR ''.''), one (code CHR ''-'')]),
      spaces, NL, Star False anything,
      Look (Alt (Seqs [NL, NL, Star True NL]) Eol)]"

text \<open>\<open>/^\s*>/\<close>\<close>

definition quoteRegex :: re where
  "quoteRegex = Seqs [Bol, spaces, Chr (code CHR ''>'')]"

text \<open>\<open>/^\s*(?:[\*\-\u2013\u2014>]|\d+[\.\)\uFF09])\s*\*?\*?[A-Za-z\u4e00-\u9fa5].*\*?\*?\s*$/\<close>\<close>

definition metaRegex :: re where
  "metaRegex = Seqs [Bol, spaces,
      Alt (Cls False [one (code CHR ''*''), one (code CHR ''-''), one 0x2013, one 0x2014,
                      one (code CHR ''>'')])
          (Seq (Plus (Cls False cls_d))
               (Cls False [one (code CHR ''.''), one (code CHR '')''), one 0xFF09])),
      spaces, Opt (Chr (code CHR ''*'')), Opt (Chr (code CHR ''*'')),
      Cls False [(0x41, 0x5A), (0x61, 0x7A), (0x4E00, 0x9FA5)],
      Star True Dot, Opt (Chr (code CHR ''*'')), Opt (Chr (code CHR ''*'')), spaces, Eol]"

text \<open>\<open>/(thinking|thoughts?|analysis|reasoning|\u601D\u8003|\u63A8\u7406|\u6B65\u9AA4|\u8BA1\u5212|\u5206\u89E3)/i\<close>\<close>

definition keywordRegex :: re where
  "keywordRegex = Grp (Alts [kw_thinking, kw_thoughts_opt, kw_analysis, kw_reasoning,
      kw_sikao, kw_tuili, kw_buzhou, kw_jihua, kw_fenjie])"

definition isQuote :: "jstr \<Rightarrow> bool" where
  "isQuote l = test quoteRegex noFlags l"

definition looksLikeMeta :: "jstr \<Rightarrow> bool" where
  "looksLikeMeta l = test metaRegex noFlags l"

definition hasThinkingKeyword :: "jstr \<Rightarrow> bool" where
  "hasThinkingKeyword l = test keywordRegex flags_i l"

text \<open>The loop over the lines, with its flag \<open>inPreamble\<close>; the result is \<open>out\<close>.\<close>

fun preambleLoop :: "jstr list \<Rightarrow> bool \<Rightarrow> jstr list" where
  "preambleLoop [] inPreamble = []"
| "preambleLoop (l # ls) inPreamble =
     (if inPreamble then
        (if isQuote l \<or> hasThinkingKeyword l \<or> looksLikeMeta l \<or> trim l = []
         then preambleLoop ls True
         else l # preambleLoop ls False)
      else l # preambleLoop ls False)"

definition labelWords :: re where
  "labelWords = Grp (Alts [kw_thinking, kw_thoughts_opt, kw_analysis, kw_reasoning, kw_sikao, kw_tuili])"

definition notNL :: re where
  "notNL = Cls True [one 0xA]"

text \<open>\<open>/^\s*\*+\s*(thinking|thoughts?|analysis|reasoning|\u601D\u8003|\u63A8\u7406)[^\n]*$/gim\<close>\<close>

definition starLabelRegex :: re where
  "starLabelRegex = Seqs [Bol, spaces, Plus (Chr (code CHR ''*'')), spaces, labelWords,
      Star True notNL, Eol]"

text \<open>\<open>/^\s*[\[\u3010\(]?(thinking|thoughts?|analysis|reasoning|\u601D\u8003|\u63A8\u7406)[\]\u3011\)]?[:\uFF1A]?[^\n]*$/gim\<close>\<close>

definition labelRegex :: re where
  "labelRegex = Seqs [Bol, spaces,
      Opt (Cls False [one (code CHR ''[''), one 0x3010, one (code CHR ''('')]),
      labelWords,
      Opt (Cls False [one (code CHR '']''), one 0x3011, one (code CHR '')'')]),
      Opt (Cls False [one (code CHR '':''), one 0xFF1A]),
      Star True notNL, Eol]"

text \<open>\<open>/\n{3,}/g\<close>\<close>

definition blankRunRegex :: re where
  "blankRunRegex = Seqs [NL, NL, NL, Star True NL]"

text \<open>The five numbered steps of \<open>stripThinking\<close>, each on the text the step before left.\<close>

definition removeBlocks :: "jstr \<Rightarrow> jstr" where
  "removeBlocks t =
     replaceAll looseTagRegex flags_i []
       (replaceAll tagRegex flags_i [] (replaceAll fenceRegex flags_i [] t))"

definition removeHead :: "jstr \<Rightarrow> jstr" where
  "removeHead t = replaceAll thinkingHeadRegex flags_im [] t"

definition scrubPreamble :: "jstr \<Rightarrow> jstr" where
  "scrubPreamble t = join [0xA] (preambleLoop (splitOn 0xA t) True)"

definition removeLabels :: "jstr \<Rightarrow> jstr" where
  "removeLabels t = replaceAll labelRegex flags_im [] (replaceAll starLabelRegex flags_im [] t)"


definition collapseBlankRuns :: "jstr \<Rightarrow> jstr" where
  "collapseBlankRuns t = replaceAll blankRunRegex noFlags [0xA, 0xA] t"

definition collapseAndTrim :: "jstr \<Rightarrow> jstr" where
  "collapseAndTrim t = trim (collapseBlankRuns t)"

definition stripThinking :: "jstr \<Rightarrow> jstr" where
  "stripThinking raw =
     (if raw = [] then []
      else collapseAndTrim (removeLabels (scrubPreamble (removeHead (removeBlocks raw)))))"

subsection \<open>Text without reasoning words\<close>

text \<open>
  The words that the expressions of \<open>stripThinking\<close> look for: every alternative of
  their keyword groups begins with one of them (\<open>thinking\<close> with \<open>think\<close>, \<open>thoughts\<close> with
  \<open>thought\<close>). \<open>containsWord w s\<close> says that \<open>w\<close> occurs in \<open>s\<close>, upper and lower case
  letters taken as equal, as the flag \<open>i\<close> takes them.
\<close>

definition reasoningWords :: "jstr list" where
  "reasoningWords = [str ''think'', str ''thought'', str ''analysis'', str ''reasoning'',
     [0x601D, 0x8003], [0x63A8, 0x7406], [0x60F3, 0x6CD5], [0x6B65, 0x9AA4], [0x8BA1, 0x5212],
     [0x5206, 0x89E3]]"

fun ciPrefix :: "jstr \<Rightarrow> jstr \<Rightarrow> bool" where
  "ciPrefix [] s = True"
| "ciPrefix (c # cs) [] = False"
| "ciPrefix (c # cs) (x # xs) = (toUpper c = toUpper x \<and> ciPrefix cs xs)"

fun containsWord :: "jstr \<Rightarrow> jstr \<Rightarrow> bool" where
  "containsWord w [] = ciPrefix w []"
| "containsWord w (x # xs) = (ciPrefix w (x # xs) \<or> containsWord w xs)"

definition mentionsReasoning :: "jstr \<Rightarrow> bool" where
  "mentionsReasoning s = list_ex (\<lambda>w. containsWord w s) reasoningWords"

text \<open>
  The characters with which a quote line or a line of bulleted or numbered commentary
  begins, after white space: \<open>*\<close>, \<open>-\<close>, the two dashes \<open>\u2013\<close> and \<open>\u2014\<close>, \<open>>\<close> and the
  digits.
\<close>

definition leadChar :: "nat \<Rightarrow> bool" where
  "leadChar c = (c = code CHR ''*'' \<or> c = code CHR ''-'' \<or> c = 0x2013 \<or> c = 0x2014
     \<or> c = code CHR ''>'' \<or> (0x30 \<le> c \<and> c \<le> 0x39))"

text \<open>
  Plain text: no reasoning word occurs in it, and its first character that is not white
  space, if there is one, does not open a quote, bullet or numbered line.
\<close>

definition plainText :: "jstr \<Rightarrow> bool" where
  "plainText s = (\<not> mentionsReasoning s \<and>
     (case dropWhile isSpace s of [] \<Rightarrow> True | c # r \<Rightarrow> \<not> leadChar c))"

text \<open>An expression needs a word when it matches only where a reasoning word lies ahead.\<close>

definition needsWord :: "re \<Rightarrow> bool" where
  "needsWord r = (\<forall>f st. ends r f st \<noteq> [] \<longrightarrow> mentionsReasoning (rest st))"

section \<open>Image locators: \<open>extractImageUrls\<close>\<close>

text \<open>\<open>/!\[[^\]]*\]\(([^)\s]+)(?:\s+"[^"]*")?\)/g\<close> and, without the leading \<open>!\<close>, the link form.\<close>

definition mdLink :: re where
  "mdLink = Seqs [Chr (code CHR ''[''), Star True (Cls True [one (code CHR '']'')]),
      Chr (code CHR '']''), Chr (code CHR ''(''),
      Grp (Plus (Cls True (one (code CHR '')'') # cls_s))),
      Opt (Seqs [Plus (Cls False cls_s), Chr 0x22, Star True (Cls True [one 0x22]), Chr 0x22]),
      Chr (code CHR '')'')]"

definition mdImg :: re where
  "mdImg = Seq (Chr (code CHR ''!'')) mdLink"

text \<open>\<open>/<img[^>]+src=["']([^"']+)["'][^>]*>/gi\<close>\<close>

definition htmlImg :: re where
  "htmlImg = Seqs [Lit (str ''<img''), Plus (Cls True [one (code CHR ''>'')]), Lit (str ''src=''),
      Cls False [one 0x22, one 0x27], Grp (Plus (Cls True [one 0x22, one 0x27])),
      Cls False [one 0x22, one 0x27], Star True (Cls True [one (code CHR ''>'')]),
      Chr (code CHR ''>'')]"

definition imageKinds :: "re list" where
  "imageKinds = [Lit (str ''png''), Lit (str ''jpeg''), Lit (str ''jpg''), Lit (str ''webp''),
                 Lit (str ''gif'')]"

text \<open>\<open>/data:image\/(?:png|jpeg|jpg|webp|gif);base64,[A-Za-z0-9+/=]+/gi\<close>\<close>

definition dataUrlRe :: re where
  "dataUrlRe = Seqs [Lit (str ''data:image/''), Alts imageKinds, Lit (str '';base64,''),
      Plus (Cls False [(0x41, 0x5A), (0x61, 0x7A), (0x30, 0x39), one (code CHR ''+''),
                       one (code CHR ''/''), one (code CHR ''='')])]"

text \<open>\<open>/(https?:\/\/[\w.-]+(?:\/[\w\-._~:\/?#\[\]@!$&'()*+,;=%]*)?)/gi\<close>\<close>

definition urlPathChars :: "(nat \<times> nat) list" where
  "urlPathChars = cls_w @ map (\<lambda>c. one (code c))
     [CHR ''-'', CHR ''.'', CHR ''_'', CHR ''~'', CHR '':'', CHR ''/'', CHR ''?'', CHR ''#'',
      CHR ''['', CHR '']'', CHR ''@'', CHR ''!'', CHR ''$'', CHR ''&'', CHR 0x27, CHR ''('',
      CHR '')'', CHR ''*'', CHR ''+'', CHR '','', CHR '';'', CHR ''='', CHR ''%'']"

definition urlRe :: re where
  "urlRe = Grp (Seqs [Lit (str ''http''), Opt (Chr (code CHR ''s'')), Lit (str ''://''),
      Plus (Cls False (cls_w @ [one (code CHR ''.''), one (code CHR ''-'')])),
      Opt (Seq (Chr (code CHR ''/'')) (Star True (Cls False urlPathChars)))])"

definition extKinds :: "re list" where
  "extKinds = [Lit (str ''png''), Lit (str ''jpg''), Lit (str ''jpeg''), Lit (str ''webp''),
               Lit (str ''gif'')]"

text \<open>
  The four tests of \<open>isProbablyImageUrl\<close>: \<open>/^data:image\//\<close>,
  \<open>/\.(png|jpg|jpeg|webp|gif)(?:\?.*)?$/i\<close>,
  \<open>/(?:image|format|ext)=(?:png|jpg|jpeg|webp|gif)/i\<close> and \<open>/(?:images|img|media|cdn)\//i\<close>.
\<close>

definition isProbablyImageUrl :: "jstr \<Rightarrow> bool" where
  "isProbablyImageUrl u =
     (if test (Seq Bol (Lit (str ''data:image/''))) noFlags u then True
      else if test (Seqs [Chr (code CHR ''.''), Grp (Alts extKinds),
                          Opt (Seq (Chr (code CHR ''?'')) (Star True Dot)), Eol]) flags_i u then True
      else if test (Seqs [Alts [Lit (str ''image''), Lit (str ''format''), Lit (str ''ext'')],
                          Chr (code CHR ''=''), Alts extKinds]) flags_i u then True
      else if test (Seq (Alts [Lit (str ''images''), Lit (str ''img''), Lit (str ''media''),
                               Lit (str ''cdn'')]) (Chr (code CHR ''/''))) flags_i u then True
      else False)"

text \<open>\<open>urls.add\<close> on a \<open>Set\<close>, which keeps the order of first insertion.\<close>

definition setAdd :: "jstr list \<Rightarrow> jstr \<Rightarrow> jstr list" where
  "setAdd urls u = (if u \<in> set urls then urls else urls @ [u])"

definition toSet :: "jstr list \<Rightarrow> jstr list" where
  "toSet xs = foldl setAdd [] xs"

text \<open>One \<open>while\<close> loop of the function: add the first group of every match, when it is not empty.\<close>

definition addGroups :: "re \<Rightarrow> flags \<Rightarrow> jstr \<Rightarrow> jstr list \<Rightarrow> jstr list option" where
  "addGroups r f s urls =
     (case execAll r f s of
        None \<Rightarrow> None
      | Some ms \<Rightarrow>
          Some (foldl (\<lambda>acc m. case snd m of None \<Rightarrow> acc
                                 | Some g \<Rightarrow> if g = [] then acc else setAdd acc g) urls ms))"

definition addWhole :: "re \<Rightarrow> flags \<Rightarrow> jstr \<Rightarrow> jstr list \<Rightarrow> jstr list option" where
  "addWhole r f s urls =
     (case execAll r f s of
        None \<Rightarrow> None
      | Some ms \<Rightarrow> Some (foldl (\<lambda>acc m. if fst m = [] then acc else setAdd acc (fst m)) urls ms))"

definition extractImageUrls :: "jstr \<Rightarrow> jstr list option" where
  "extractImageUrls s =
     Option.bind (addGroups mdImg noFlags s []) (\<lambda>u1.
     Option.bind (addGroups mdLink noFlags s u1) (\<lambda>u2.
     Option.bind (addGroups htmlImg flags_i s u2) (\<lambda>u3.
     Option.bind (addWhole dataUrlRe flags_i s u3) (\<lambda>u4.
     Option.bind (addGroups urlRe flags_i s u4) (\<lambda>urls.
       (let list = filter isProbablyImageUrl urls
        in if list = [] then Some (toSet urls) else Some (toSet list)))))))"

section \<open>Persistence: \<open>src/lib/storage.ts\<close>\<close>

datatype PersistKey = K_prompts | K_apiProfiles | K_defaults | K_tasks | K_results | K_noteApi
  | K_images | K_writeCount | K_autoSaveNote | K_imageCount

text \<open>
  \<open>JSON.parse\<close> is the platform's: it is a parameter \<open>parse\<close> of the model, returning
  \<open>None\<close> where the platform throws a \<open>SyntaxError\<close>. \<open>safeParse\<close> catches every
  exception of its \<open>try\<close> block, so it always returns a value.
\<close>

definition safeParse :: "(jstr \<Rightarrow> 'v option) \<Rightarrow> jstr option \<Rightarrow> 'v \<Rightarrow> 'v" where
  "safeParse parse raw fallback =
     (case raw of
        None \<Rightarrow> fallback
      | Some r \<Rightarrow>
          if r = [] then fallback
          else (case parse r of Some v \<Rightarrow> v | None \<Rightarrow> fallback))"

text \<open>
  \<open>readLS\<close> evaluates \<open>localStorage.getItem(key)\<close> before it calls \<open>safeParse\<close>, outside
  any \<open>try\<close>. The read gives the stored string, \<open>null\<close> (\<open>None\<close>) when nothing is stored,
  or it throws, as it does where the page is denied access to the store: \<open>getItem\<close> is a
  parameter with these three outcomes, and an exception of \<open>readLS\<close> is the result
  \<open>Inl\<close>. \<open>window_defined\<close> is the test \<open>typeof window !== "undefined"\<close>.
\<close>

datatype storeError = SecurityError

definition readLS ::
  "(jstr \<Rightarrow> 'v option) \<Rightarrow> bool \<Rightarrow> (PersistKey \<Rightarrow> storeError + jstr option) \<Rightarrow> PersistKey \<Rightarrow> 'v
     \<Rightarrow> storeError + 'v" where
  "readLS parse window_defined getItem key fallback =
     (if \<not> window_defined then Inr fallback
      else (case getItem key of
              Inl err \<Rightarrow> Inl err
            | Inr raw \<Rightarrow> Inr (safeParse parse raw fallback)))"

section \<open>The workbench: \<open>src/app/writer/WriterWorkbench.tsx\<close>\<close>

subsection \<open>Data\<close>

record ModelConfig =
  m_name :: jstr
  baseUrl :: jstr
  apiKey :: jstr
  model :: jstr
  thinkingFilter :: "bool option"

record ApiProfiles =
  api_search :: "ModelConfig option"
  api_write :: "ModelConfig option"
  api_split :: "ModelConfig option"
  api_image :: "ModelConfig option"

record PromptItem =
  p_id :: jstr
  p_name :: jstr
  p_category :: jstr
  p_content :: jstr
  p_isDefault :: "bool option"

record TaskInput =
  t_id :: jstr
  t_index :: int
  t_title :: "jstr option"
  t_tags :: "jstr list option"
  t_promptKey :: "jstr option"
  t_guidance :: "jstr option"
  t_needsSearch :: bool
  t_raw :: jstr

text \<open>A result as the workbench stores it: the declared fields and, added by a cast, \<open>parentId\<close> and \<open>variantNo\<close>.\<close>

record TaskResult =
  r_id :: jstr
  r_index :: int
  r_raw :: jstr
  r_searchOutput :: "jstr option"
  r_writeOutput :: "jstr option"
  r_createdAt :: int
  r_parentId :: "jstr option"
  r_variantNo :: "nat option"

record DefaultsState =
  defaultSearchPromptId :: "jstr option"
  defaultWritePromptId :: "jstr option"
  defaultSplitPromptId :: "jstr option"

record NoteApiConfig =
  n_endpoint :: jstr
  n_apiKey :: jstr

datatype role = System | User | Assistant

record ChatMessage =
  role :: role
  content :: jstr

text \<open>
  What a render of the component closes over: the settings and lists that \<open>runOne\<close> and
  the refine handler read but do not change.
\<close>

record env =
  apiProfiles :: ApiProfiles
  prompts :: "PromptItem list"
  defaults :: DefaultsState
  tasks :: "TaskInput list"
  globalGuidance :: jstr
  globalPromptId :: "jstr option"
  writeCount :: int
  autoSaveNote :: bool
  noteApi :: NoteApiConfig

text \<open>
  A call of \<open>chatCompletion\<close> resolves with the completion, throws an \<open>Error\<close>, or is
  rejected because the signal it was given was aborted. What the provider answers is not
  the program's: \<open>net\<close> gives the outcome of the search call, of the \<open>k\<close>-th write call
  (the only one is number 1) and of the refine call, the order in which concurrent write
  calls settle, the value of \<open>Date.now()\<close> after the \<open>k\<close>-th call, and whether the posts to
  the note service went through.
\<close>

datatype reply = Resolved jstr | Rejected jstr | AbortedCall

record net =
  searchReply :: reply
  writeReply :: "nat \<Rightarrow> reply"
  settleOrder :: "nat list"
  clock :: "nat \<Rightarrow> int"
  refineReply :: reply
  noteReply :: bool

datatype failure = MissingSearchApi | MissingSearchPrompt | MissingWritePrompt
  | CallFailed jstr | CallAborted

datatype toast = ErrNoWriteApi | ErrItemFailed int failure | OkStopped
  | ErrNoteEndpoint | ErrNoteKey | ErrNothingToSave | OkNotesSaved | ErrNoteSaveFailed
  | ErrRefineNoNote | ErrRefineNoTask | ErrRefineNoApi | ErrRefineNoPrompt | OkRefined
  | ErrRefineFailed failure

datatype stage = Searching | Writing | Refining

text \<open>
  The state the handlers change: the results collection, the in-flight tracking
  (\<open>runningIds\<close>, \<open>stages\<close>, the abort controllers of \<open>abortMap\<close>), the refine notes, and,
  as logs, the notifications shown, the requests sent to the provider and the payloads
  posted to the note service.
\<close>

record ui =
  results :: "TaskResult list"
  runningIds :: "jstr set"
  stages :: "jstr \<rightharpoonup> stage"
  abortMap :: "jstr set"
  refineNotes :: "jstr \<rightharpoonup> jstr"
  toasts :: "toast list"
  requests :: "(ModelConfig \<times> ChatMessage list) list"
  notesPosted :: "jstr list"

subsection \<open>Helpers\<close>

fun decimal :: "nat \<Rightarrow> jstr" where
  "decimal n = (if n < 10 then [0x30 + n] else decimal (n div 10) @ [0x30 + n mod 10])"

declare decimal.simps [simp del]

text \<open>\<open>a || b\<close> on optional strings: the empty string is falsy like \<open>undefined\<close>.\<close>

definition truthy :: "jstr option \<Rightarrow> bool" where
  "truthy a = (case a of None \<Rightarrow> False | Some x \<Rightarrow> x \<noteq> [])"

definition orElse :: "jstr option \<Rightarrow> jstr option \<Rightarrow> jstr option" where
  "orElse a b = (if truthy a then a else b)"

definition findPrompt :: "PromptItem list \<Rightarrow> jstr option \<Rightarrow> PromptItem option" where
  "findPrompt ps i = (case i of None \<Rightarrow> None | Some x \<Rightarrow> find (\<lambda>p. p_id p = x) ps)"

definition selectedWritePrompt :: "env \<Rightarrow> PromptItem option" where
  "selectedWritePrompt e =
     findPrompt (prompts e) (orElse (globalPromptId e) (defaultWritePromptId (defaults e)))"

definition selectedSearchPrompt :: "env \<Rightarrow> PromptItem option" where
  "selectedSearchPrompt e = findPrompt (prompts e) (defaultSearchPromptId (defaults e))"

definition writePromptFor :: "env \<Rightarrow> TaskInput \<Rightarrow> PromptItem option" where
  "writePromptFor e task =
     (if truthy (t_promptKey task) then findPrompt (prompts e) (t_promptKey task)
      else selectedWritePrompt e)"

definition failureOf :: "reply \<Rightarrow> failure" where
  "failureOf r = (case r of Rejected m \<Rightarrow> CallFailed m | AbortedCall \<Rightarrow> CallAborted
                  | Resolved out \<Rightarrow> CallFailed out)"

definition isResolved :: "reply \<Rightarrow> bool" where
  "isResolved r = (case r of Resolved out \<Rightarrow> True | Rejected m \<Rightarrow> False | AbortedCall \<Rightarrow> False)"

definition outputOf :: "reply \<Rightarrow> jstr" where
  "outputOf r = (case r of Resolved out \<Rightarrow> out | Rejected m \<Rightarrow> [] | AbortedCall \<Rightarrow> [])"

definition clean :: "jstr option \<Rightarrow> jstr" where
  "clean s = trim (stripThinking (case s of None \<Rightarrow> [] | Some x \<Rightarrow> x))"

subsection \<open>The write prompt\<close>

text \<open>\<open>"\n\n[...]\n"\<close>: the headings of the two guidance blocks.\<close>

definition itemHeading :: jstr where
  "itemHeading = [0xA, 0xA, 0x5B, 0x6307, 0x5BFC, 0x91CD, 0x70B9, 0x5D, 0xA]"

definition batchHeading :: jstr where
  "batchHeading = [0xA, 0xA, 0x5B, 0x6279, 0x91CF, 0x6307, 0x5BFC, 0x5D, 0xA]"

text \<open>\<open>task.guidance?.trim()\<close> as a condition.\<close>

definition guidanceGiven :: "jstr option \<Rightarrow> bool" where
  "guidanceGiven g = (case g of None \<Rightarrow> False | Some x \<Rightarrow> trim x \<noteq> [])"

definition userContent :: "TaskInput \<Rightarrow> jstr option \<Rightarrow> jstr" where
  "userContent task searchOutput =
     (if t_needsSearch task then (case searchOutput of None \<Rightarrow> [] | Some x \<Rightarrow> x)
      else t_raw task)"

definition composeUser :: "TaskInput \<Rightarrow> jstr \<Rightarrow> jstr option \<Rightarrow> jstr" where
  "composeUser task gg searchOutput =
     concat [userContent task searchOutput,
       (if guidanceGiven (t_guidance task)
        then itemHeading @ (case t_guidance task of None \<Rightarrow> [] | Some x \<Rightarrow> x) else []),
       (if trim gg \<noteq> [] \<and> guidanceGiven (t_guidance task) then []
        else (if trim gg \<noteq> [] then batchHeading @ gg else []))]"

subsection \<open>Updates of the results collection\<close>

text \<open>The three \<open>setResults\<close> updaters: each maps the collection as it is when the update runs.\<close>

definition insertSingle :: "TaskResult \<Rightarrow> TaskResult list \<Rightarrow> TaskResult list" where
  "insertSingle tr prev = sort_key r_index (filter (\<lambda>x. r_id x \<noteq> r_id tr) prev @ [tr])"

definition variantKey :: "TaskResult \<Rightarrow> int \<times> nat" where
  "variantKey r = (r_index r, (case r_variantNo r of None \<Rightarrow> 0 | Some v \<Rightarrow> v))"

definition replaceVariants :: "TaskInput \<Rightarrow> TaskResult list \<Rightarrow> TaskResult list \<Rightarrow> TaskResult list" where
  "replaceVariants task variants prev =
     sort_key variantKey
       (filter (\<lambda>x. r_id x \<noteq> t_id task \<and> r_parentId x \<noteq> Some (t_id task)) prev @ variants)"

definition refineUpdate :: "jstr \<Rightarrow> jstr \<Rightarrow> int \<Rightarrow> TaskResult list \<Rightarrow> TaskResult list" where
  "refineUpdate rid newOut now prev =
     map (\<lambda>x. if r_id x = rid then x\<lparr>r_writeOutput := Some newOut, r_createdAt := now\<rparr> else x) prev"

subsection \<open>\<open>saveToNoteApi\<close>\<close>

text \<open>
  The function reads \<open>results\<close> as the render it belongs to saw them (the argument \<open>rs\<close>);
  it catches the failure of its own posts.
\<close>

definition notePayload :: "nat \<Rightarrow> TaskResult \<Rightarrow> jstr" where
  "notePayload i r = [0x6587, 0x6848] @ decimal (i + 1) @ [0xA, 0xA] @ clean (r_writeOutput r)"

definition saveToNoteApi :: "env \<Rightarrow> net \<Rightarrow> TaskResult list \<Rightarrow> jstr list option \<Rightarrow> ui \<Rightarrow> ui" where
  "saveToNoteApi e n rs selectedIds s =
     (if n_endpoint (noteApi e) = [] then s\<lparr>toasts := toasts s @ [ErrNoteEndpoint]\<rparr>
      else if n_apiKey (noteApi e) = [] then s\<lparr>toasts := toasts s @ [ErrNoteKey]\<rparr>
      else
        (let payloads = map (\<lambda>(i, r). notePayload i r)
               (enumerate 0 (filter (\<lambda>r. case selectedIds of None \<Rightarrow> True
                                            | Some ids \<Rightarrow> r_id r \<in> set ids) rs))
         in if payloads = [] then s\<lparr>toasts := toasts s @ [ErrNothingToSave]\<rparr>
            else if noteReply n
              then s\<lparr>notesPosted := notesPosted s @ payloads, toasts := toasts s @ [OkNotesSaved]\<rparr>
              else s\<lparr>toasts := toasts s @ [ErrNoteSaveFailed]\<rparr>))"

subsection \<open>\<open>runOne\<close>\<close>

text \<open>
  The body of the \<open>try\<close> block returns the state it reached and, when it threw, the
  failure. First the optional search stage, which yields \<open>searchOutput\<close>.
\<close>

definition runSearch :: "env \<Rightarrow> net \<Rightarrow> TaskInput \<Rightarrow> ui \<Rightarrow> ui \<times> (failure + jstr option)" where
  "runSearch e n task s =
     (if t_needsSearch task then
        (case api_search (apiProfiles e) of
           None \<Rightarrow> (s, Inl MissingSearchApi)
         | Some cfg \<Rightarrow>
             (case selectedSearchPrompt e of
                None \<Rightarrow> (s, Inl MissingSearchPrompt)
              | Some sp \<Rightarrow>
                  (let msgs = [\<lparr>role = System, content = p_content sp\<rparr>,
                               \<lparr>role = User, content = t_raw task\<rparr>];
                       s1 = s\<lparr>stages := (stages s)(t_id task \<mapsto> Searching),
                              requests := requests s @ [(cfg, msgs)]\<rparr>
                   in (case searchReply n of
                         Resolved out \<Rightarrow> (s1, Inr (Some (stripThinking out)))
                       | Rejected m \<Rightarrow> (s1, Inl (CallFailed m))
                       | AbortedCall \<Rightarrow> (s1, Inl CallAborted)))))
      else (s, Inr None))"

text \<open>\<open>Math.max(1, Math.min(5, Number(writeCount) || 1))\<close>\<close>

definition variantCount :: "env \<Rightarrow> nat" where
  "variantCount e = nat (max 1 (min 5 (if writeCount e = 0 then 1 else writeCount e)))"

definition variantId :: "TaskInput \<Rightarrow> nat \<Rightarrow> jstr" where
  "variantId task k = t_id task @ [0x2D] @ decimal k"

definition singleResult :: "TaskInput \<Rightarrow> jstr option \<Rightarrow> jstr \<Rightarrow> int \<Rightarrow> TaskResult" where
  "singleResult task searchOutput out now =
     \<lparr>r_id = t_id task, r_index = t_index task, r_raw = t_raw task,
      r_searchOutput = searchOutput, r_writeOutput = Some out, r_createdAt = now,
      r_parentId = None, r_variantNo = None\<rparr>"

definition variantResult :: "TaskInput \<Rightarrow> jstr option \<Rightarrow> nat \<Rightarrow> jstr \<Rightarrow> int \<Rightarrow> TaskResult" where
  "variantResult task searchOutput k out now =
     \<lparr>r_id = variantId task k, r_index = t_index task, r_raw = t_raw task,
      r_searchOutput = searchOutput, r_writeOutput = Some out, r_createdAt = now,
      r_parentId = Some (t_id task), r_variantNo = Some k\<rparr>"

text \<open>
  \<open>Promise.all\<close> over the variant calls is rejected with the reason of the call that is
  rejected first.
\<close>

definition firstFailure :: "net \<Rightarrow> nat list \<Rightarrow> failure" where
  "firstFailure n ks =
     (case filter (\<lambda>k. k \<in> set ks \<and> \<not> isResolved (writeReply n k)) (settleOrder n @ ks) of
        [] \<Rightarrow> CallAborted
      | k # rest_ks \<Rightarrow> failureOf (writeReply n k))"

definition autoSave :: "env \<Rightarrow> net \<Rightarrow> TaskResult list \<Rightarrow> jstr list \<Rightarrow> ui \<Rightarrow> ui" where
  "autoSave e n rs createdIds s =
     (if autoSaveNote e then saveToNoteApi e n rs (Some createdIds) s else s)"

definition runWrite ::
  "env \<Rightarrow> net \<Rightarrow> TaskInput \<Rightarrow> ModelConfig \<Rightarrow> jstr option \<Rightarrow> TaskResult list \<Rightarrow> ui \<Rightarrow> ui \<times> failure option" where
  "runWrite e n task wcfg searchOutput rs s =
     (case writePromptFor e task of
        None \<Rightarrow> (s, Some MissingWritePrompt)
      | Some wp \<Rightarrow>
          (let writeMessages = [\<lparr>role = System, content = p_content wp\<rparr>,
                 \<lparr>role = User, content = composeUser task (globalGuidance e) searchOutput\<rparr>];
               s1 = s\<lparr>stages := (stages s)(t_id task \<mapsto> Writing)\<rparr>;
               count = variantCount e
           in if count = 1 then
                (let s2 = s1\<lparr>requests := requests s1 @ [(wcfg, writeMessages)]\<rparr>
                 in (case writeReply n 1 of
                       Resolved out \<Rightarrow>
                         (let tr = singleResult task searchOutput (stripThinking out) (clock n 1);
                              s3 = s2\<lparr>results := insertSingle tr (results s2)\<rparr>
                          in (autoSave e n rs [r_id tr] s3, None))
                     | Rejected m \<Rightarrow> (s2, Some (CallFailed m))
                     | AbortedCall \<Rightarrow> (s2, Some CallAborted)))
              else
                (let ks = [1..<Suc count];
                     s2 = s1\<lparr>requests := requests s1 @ map (\<lambda>k. (wcfg, writeMessages)) ks\<rparr>
                 in if list_all (\<lambda>k. isResolved (writeReply n k)) ks then
                      (let variants = map (\<lambda>k. variantResult task searchOutput k
                                 (stripThinking (outputOf (writeReply n k))) (clock n k)) ks;
                           s3 = s2\<lparr>results := replaceVariants task variants (results s2)\<rparr>
                       in (autoSave e n rs (map r_id variants) s3, None))
                    else (s2, Some (firstFailure n ks)))))"

text \<open>The \<open>finally\<close> block.\<close>

definition cleanup :: "jstr \<Rightarrow> ui \<Rightarrow> ui" where
  "cleanup i s = s\<lparr>abortMap := abortMap s - {i}, runningIds := runningIds s - {i},
                    stages := (stages s)(i := None)\<rparr>"

definition runOne :: "env \<Rightarrow> net \<Rightarrow> TaskInput \<Rightarrow> ui \<Rightarrow> ui" where
  "runOne e n task s =
     (case api_write (apiProfiles e) of
        None \<Rightarrow> s\<lparr>toasts := toasts s @ [ErrNoWriteApi]\<rparr>
      | Some wcfg \<Rightarrow>
          (let s1 = s\<lparr>runningIds := insert (t_id task) (runningIds s),
                      abortMap := insert (t_id task) (abortMap s)\<rparr>;
               searched = runSearch e n task s1;
               written = (case snd searched of
                            Inl f \<Rightarrow> (fst searched, Some f)
                          | Inr so \<Rightarrow> runWrite e n task wcfg so (results s) (fst searched));
               s4 = (case snd written of
                       None \<Rightarrow> fst written
                     | Some f \<Rightarrow> (fst written)\<lparr>toasts := toasts (fst written) @
                                                   [ErrItemFailed (t_index task) f]\<rparr>)
           in cleanup (t_id task) s4))"

definition stopAll :: "ui \<Rightarrow> ui" where
  "stopAll s = s\<lparr>abortMap := {}, runningIds := {}, toasts := toasts s @ [OkStopped]\<rparr>"

subsection \<open>Refining a result\<close>

text \<open>The click handler of the refine button of a result \<open>r\<close>; its call carries no abort signal.\<close>

definition refinePrompt :: "TaskInput \<Rightarrow> TaskResult \<Rightarrow> jstr \<Rightarrow> jstr" where
  "refinePrompt task r note = concat
     [[0x3010, 0x539F, 0x59CB, 0x7D20, 0x6750, 0x3011, 0xA] @ t_raw task,
      [0xA, 0xA, 0x3010, 0x5F53, 0x524D, 0x6587, 0x6848, 0x3011, 0xA] @
        (case r_writeOutput r of None \<Rightarrow> [] | Some x \<Rightarrow> x),
      [0xA, 0xA, 0x3010, 0x4FEE, 0x6539, 0x6307, 0x4EE4, 0x3011, 0xA] @ note,
      [0xA, 0xA, 0x3010, 0x8981, 0x6C42, 0x3011, 0x76F4, 0x63A5, 0x8F93, 0x51FA, 0x6700, 0x7EC8,
       0x6587, 0x6848, 0xFF0C, 0x4E0D, 0x8981, 0x5305, 0x542B, 0x4EFB, 0x4F55, 0x601D, 0x8003,
       0x3001, 0x89E3, 0x91CA, 0x6216, 0x989D, 0x5916, 0x8BF4, 0x660E, 0x3002]]"

definition taskOf :: "env \<Rightarrow> TaskResult \<Rightarrow> TaskInput option" where
  "taskOf e r =
     (case (case r_parentId r of None \<Rightarrow> None
            | Some pid \<Rightarrow> find (\<lambda>t. t_id t = pid) (tasks e)) of
        Some t \<Rightarrow> Some t
      | None \<Rightarrow> find (\<lambda>t. t_id t = r_id r) (tasks e))"

definition refine :: "env \<Rightarrow> net \<Rightarrow> TaskResult \<Rightarrow> ui \<Rightarrow> ui" where
  "refine e n r s =
     (let note = trim (case refineNotes s (r_id r) of None \<Rightarrow> [] | Some x \<Rightarrow> x)
      in if note = [] then s\<lparr>toasts := toasts s @ [ErrRefineNoNote]\<rparr>
         else (case taskOf e r of
            None \<Rightarrow> s\<lparr>toasts := toasts s @ [ErrRefineNoTask]\<rparr>
          | Some task \<Rightarrow>
             (case api_write (apiProfiles e) of
                None \<Rightarrow> s\<lparr>toasts := toasts s @ [ErrRefineNoApi]\<rparr>
              | Some wcfg \<Rightarrow>
                 (case writePromptFor e task of
                    None \<Rightarrow> s\<lparr>toasts := toasts s @ [ErrRefineNoPrompt]\<rparr>
                  | Some wp \<Rightarrow>
                     (let messages = [\<lparr>role = System, content = p_content wp\<rparr>,
                                      \<lparr>role = User, content = refinePrompt task r note\<rparr>];
                          s1 = s\<lparr>stages := (stages s)(r_id r \<mapsto> Refining),
                                 requests := requests s @ [(wcfg, messages)]\<rparr>;
                          s2 = (case refineReply n of
                                  Resolved out \<Rightarrow>
                                    s1\<lparr>results := refineUpdate (r_id r) (stripThinking out)
                                                     (clock n 0) (results s1),
                                       toasts := toasts s1 @ [OkRefined]\<rparr>
                                | Rejected m \<Rightarrow>
                                    s1\<lparr>toasts := toasts s1 @ [ErrRefineFailed (CallFailed m)]\<rparr>
                                | AbortedCall \<Rightarrow>
                                    s1\<lparr>toasts := toasts s1 @ [ErrRefineFailed CallAborted]\<rparr>)
                      in s2\<lparr>stages := (stages s2)(r_id r := None)\<rparr>)))))"

subsection \<open>A small configuration\<close>

text \<open>
  One write endpoint, one write prompt that is the default, and one task with the id
  \<open>t\<close> that needs no search. \<open>exampleEnv c\<close> asks for \<open>c\<close> variants. Under \<open>okNet\<close>
  every call resolves; under \<open>failNet\<close> the second write call is rejected and the others
  resolve.
\<close>

definition exampleConfig :: ModelConfig where
  "exampleConfig = \<lparr>m_name = str ''w'', baseUrl = str ''https://api.example.com'',
     apiKey = str ''k'', model = str ''m'', thinkingFilter = None\<rparr>"

definition examplePrompt :: PromptItem where
  "examplePrompt = \<lparr>p_id = str ''p'', p_name = str ''write'', p_category = str ''write'',
     p_content = str ''Write.'', p_isDefault = None\<rparr>"

definition exampleTask :: TaskInput where
  "exampleTask = \<lparr>t_id = str ''t'', t_index = 1, t_title = None, t_tags = None,
     t_promptKey = None, t_guidance = Some (str ''short''), t_needsSearch = False,
     t_raw = str ''A''\<rparr>"

definition exampleEnv :: "int \<Rightarrow> env" where
  "exampleEnv c = \<lparr>apiProfiles = \<lparr>api_search = None, api_write = Some exampleConfig,
       api_split = None, api_image = None\<rparr>,
     prompts = [examplePrompt],
     defaults = \<lparr>defaultSearchPromptId = None, defaultWritePromptId = Some (str ''p''),
       defaultSplitPromptId = None\<rparr>,
     tasks = [exampleTask], globalGuidance = str ''brief'', globalPromptId = None,
     writeCount = c, autoSaveNote = False,
     noteApi = \<lparr>n_endpoint = [], n_apiKey = []\<rparr>\<rparr>"

definition okNet :: net where
  "okNet = \<lparr>searchReply = Resolved (str ''s''), writeReply = (\<lambda>k. Resolved (str ''ok'')),
     settleOrder = [3, 1, 2], clock = (\<lambda>k. 100 + int k), refineReply = Resolved (str ''better''),
     noteReply = True\<rparr>"

definition failNet :: net where
  "failNet = okNet\<lparr>writeReply := (\<lambda>k. if k = 2 then Rejected (str ''HTTP 500'')
                                       else Resolved (str ''ok''))\<rparr>"

definition abortNet :: net where
  "abortNet = okNet\<lparr>writeReply := (\<lambda>k. AbortedCall)\<rparr>"

definition emptyUi :: ui where
  "emptyUi = \<lparr>results = [], runningIds = {}, stages = Map.empty, abortMap = {},
     refineNotes = Map.empty, toasts = [], requests = [], notesPosted = []\<rparr>"

text \<open>A stored single result of another item, whose id is \<open>t-1\<close>.\<close>

definition otherResult :: TaskResult where
  "otherResult = \<lparr>r_id = str ''t-1'', r_index = 1, r_raw = str ''B'', r_searchOutput = None,
     r_writeOutput = Some (str ''old''), r_createdAt = 7, r_parentId = None, r_variantNo = None\<rparr>"

definition storedUi :: ui where
  "storedUi = emptyUi\<lparr>results := [otherResult],
     refineNotes := [str ''t-1'' \<mapsto> str ''shorter'']\<rparr>"

text \<open>
  The same configuration with a search endpoint and a default search prompt, an item that
  asks for the search and has no guidance of its own, and a provider whose search answer
  opens with a fenced reasoning block.
\<close>

definition searchConfig :: ModelConfig where
  "searchConfig = \<lparr>m_name = str ''s'', baseUrl = str ''https://search.example.com'',
     apiKey = str ''k'', model = str ''m'', thinkingFilter = None\<rparr>"

definition searchPrompt :: PromptItem where
  "searchPrompt = \<lparr>p_id = str ''sp'', p_name = str ''search'', p_category = str ''search'',
     p_content = str ''Search.'', p_isDefault = None\<rparr>"

definition searchEnv :: env where
  "searchEnv = (exampleEnv 1)\<lparr>
     apiProfiles := \<lparr>api_search = Some searchConfig, api_write = Some exampleConfig,
       api_split = None, api_image = None\<rparr>,
     prompts := [examplePrompt, searchPrompt],
     defaults := \<lparr>defaultSearchPromptId = Some (str ''sp''),
       defaultWritePromptId = Some (str ''p''), defaultSplitPromptId = None\<rparr>\<rparr>"

definition searchTask :: TaskInput where
  "searchTask = exampleTask\<lparr>t_needsSearch := True, t_guidance := None\<rparr>"

definition searchNet :: net where
  "searchNet = okNet\<lparr>searchReply := Resolved (str ''```think x```facts'')\<rparr>"

section \<open>Evaluation\<close>

text \<open>The equations that evaluate the definitions above on concrete texts.\<close>

lemmas rx_eval = replaceAll_def test_def matchAt_def execAll_def
  Opt_def Plus_def code_def one_def cls_s_def cls_d_def cls_w_def spaces_def anything_def NL_def
  noFlags_def flags_m_def flags_i_def flags_im_def str_def step_def inClass_def inRanges_def
  sameChar_def atBol_def atEol_def isLineTerminator_def toUpper_def toLower_def
  trim_def trimStart_def trimEnd_def isSpace_def Let_def

lemmas split_eval = splitNumberedBlocks_def separators_def numberRegex_def detectRegex_def
  crlfRegex_def flush_def renumber_def enumerate_eq_zip

lemmas strip_eval = stripThinking_def removeBlocks_def removeHead_def scrubPreamble_def
  removeLabels_def collapseAndTrim_def collapseBlankRuns_def fenceRegex_def tagRegex_def
  looseTagRegex_def thinkingHeadRegex_def quoteRegex_def metaRegex_def keywordRegex_def
  labelWords_def notNL_def starLabelRegex_def labelRegex_def blankRunRegex_def tagNames_def
  fence_def isQuote_def looksLikeMeta_def hasThinkingKeyword_def
  kw_thinking_def kw_think_def kw_thought_def kw_thoughts_def kw_thoughts_opt_def kw_analysis_def
  kw_reasoning_def kw_sikao_def kw_tuili_def kw_xiangfa_def kw_buzhou_def kw_jihua_def
  kw_fenjie_def

lemmas extract_eval = extractImageUrls_def addGroups_def addWhole_def setAdd_def toSet_def
  isProbablyImageUrl_def mdImg_def mdLink_def htmlImg_def dataUrlRe_def urlRe_def
  urlPathChars_def imageKinds_def extKinds_def

lemmas run_eval = runOne_def runSearch_def runWrite_def cleanup_def autoSave_def
  saveToNoteApi_def variantCount_def variantId_def singleResult_def variantResult_def
  firstFailure_def insertSingle_def replaceVariants_def variantKey_def refineUpdate_def
  refine_def taskOf_def writePromptFor_def selectedWritePrompt_def selectedSearchPrompt_def
  findPrompt_def orElse_def truthy_def isResolved_def outputOf_def failureOf_def
  composeUser_def userContent_def guidanceGiven_def itemHeading_def batchHeading_def
  stopAll_def

lemmas example_eval = exampleConfig_def examplePrompt_def exampleTask_def exampleEnv_def
  okNet_def failNet_def abortNet_def emptyUi_def otherResult_def storedUi_def searchConfig_def
  searchPrompt_def searchEnv_def searchTask_def searchNet_def


section \<open>The run of one item\<close>

lemma results_saveToNoteApi: "results (saveToNoteApi e n rs sel s) = results s"
  by (simp add: saveToNoteApi_def Let_def)

lemma results_autoSave: "results (autoSave e n rs ids s) = results s"
  by (simp add: autoSave_def results_saveToNoteApi)

lemma runSearch_results: "results (fst (runSearch e n task s)) = results s"
  by (simp add: runSearch_def Let_def split: option.splits reply.splits)

lemma runSearch_toasts: "toasts (fst (runSearch e n task s)) = toasts s"
  by (simp add: runSearch_def Let_def split: option.splits reply.splits)

lemma runSearch_aborted:
  "t_needsSearch task \<Longrightarrow> searchReply n = AbortedCall \<Longrightarrow> \<exists>f. snd (runSearch e n task s) = Inl f"
  by (simp add: runSearch_def Let_def split: option.splits)

lemma runWrite_failed:
  assumes "k \<in> {1..variantCount e}" "\<not> isResolved (writeReply n k)"
  shows "results (fst (runWrite e n task wcfg so rs s)) = results s
       \<and> toasts (fst (runWrite e n task wcfg so rs s)) = toasts s
       \<and> (\<exists>f. snd (runWrite e n task wcfg so rs s) = Some f)"
proof (cases "writePromptFor e task")
  case None
  then show ?thesis by (simp add: runWrite_def)
next
  case (Some wp)
  show ?thesis
  proof (cases "variantCount e = 1")
    case True
    with assms have "k = 1" by simp
    with assms(2) Some True show ?thesis
      by (simp add: runWrite_def Let_def isResolved_def split: reply.splits)
  next
    case False
    from assms have "k \<in> set [1..<Suc (variantCount e)]" by auto
    with assms(2) have "\<not> list_all (\<lambda>k. isResolved (writeReply n k)) [1..<Suc (variantCount e)]"
      unfolding list_all_iff by blast
    with Some False show ?thesis
      by (simp add: runWrite_def Let_def)
  qed
qed

text \<open>
  Claim C1 says that when several variants are requested and one write call fails, the
  sibling variants that succeeded are still recorded. The code awaits the calls with one
  \<open>Promise.all\<close> inside the single \<open>try\<close> block of \<open>runOne\<close>, so one rejection takes the
  \<open>catch\<close> branch and nothing is recorded: with three variants, the first and third
  resolving and the second rejected, the results collection stays empty.
\<close>

theorem variant_failure_loses_siblings:
  "variantCount (exampleEnv 3) = 3
   \<and> isResolved (writeReply failNet 1) \<and> \<not> isResolved (writeReply failNet 2)
   \<and> isResolved (writeReply failNet 3)
   \<and> results (runOne (exampleEnv 3) failNet exampleTask emptyUi) = []"
  by (simp add: run_eval example_eval str_def trim_def trimStart_def trimEnd_def isSpace_def
      Let_def upt_rec)

text \<open>
  Claim C1 as the code has it: when at least two variants are requested and some variant's
  write call does not resolve, the run records nothing (the results collection is as it
  was before), raises exactly one failure notification, for the item, and clears the
  item's in-flight tracking.
\<close>

theorem variant_failure_discards_run:
  assumes "api_write (apiProfiles e) = Some wcfg"
      and "2 \<le> variantCount e"
      and "k \<in> {1..variantCount e}"
      and "\<not> isResolved (writeReply n k)"
  shows "results (runOne e n task s) = results s
       \<and> (\<exists>f. toasts (runOne e n task s) = toasts s @ [ErrItemFailed (t_index task) f])
       \<and> t_id task \<notin> abortMap (runOne e n task s)
       \<and> t_id task \<notin> runningIds (runOne e n task s)
       \<and> stages (runOne e n task s) (t_id task) = None"
proof -
  let ?s1 = "s\<lparr>runningIds := insert (t_id task) (runningIds s),
               abortMap := insert (t_id task) (abortMap s)\<rparr>"
  let ?se = "runSearch e n task ?s1"
  show ?thesis
  proof (cases "snd ?se")
    case (Inl f)
    then show ?thesis using assms(1) runSearch_results[of e n task ?s1] runSearch_toasts[of e n task ?s1]
      by (simp add: runOne_def Let_def cleanup_def)
  next
    case (Inr so)
    let ?w = "runWrite e n task wcfg so (results s) (fst ?se)"
    from runWrite_failed[OF assms(3,4), of task wcfg so "results s" "fst ?se"]
    obtain f where "results (fst ?w) = results (fst ?se)" "toasts (fst ?w) = toasts (fst ?se)"
      "snd ?w = Some f" by blast
    then show ?thesis using Inr assms(1) runSearch_results[of e n task ?s1] runSearch_toasts[of e n task ?s1]
      by (simp add: runOne_def Let_def cleanup_def)
  qed
qed

theorem variant_failure_discards_run_witness:
  "results (runOne (exampleEnv 3) failNet exampleTask storedUi) = results storedUi
   \<and> (\<exists>f. toasts (runOne (exampleEnv 3) failNet exampleTask storedUi)
            = toasts storedUi @ [ErrItemFailed (t_index exampleTask) f])
   \<and> t_id exampleTask \<notin> abortMap (runOne (exampleEnv 3) failNet exampleTask storedUi)
   \<and> t_id exampleTask \<notin> runningIds (runOne (exampleEnv 3) failNet exampleTask storedUi)
   \<and> stages (runOne (exampleEnv 3) failNet exampleTask storedUi) (t_id exampleTask) = None"
  by (rule variant_failure_discards_run[of "exampleEnv 3" exampleConfig 2 failNet])
    (simp_all add: exampleEnv_def variantCount_def failNet_def okNet_def isResolved_def)

text \<open>
  Claim C2: when the search call or a write call of an item is aborted, the run produces
  no result: the results collection is left as it was. \<open>stopAll\<close>, which fires the abort
  signals, does not touch the collection either.
\<close>

theorem aborted_run_leaves_results:
  assumes "(t_needsSearch task \<and> searchReply n = AbortedCall)
         \<or> (\<exists>k\<in>{1..variantCount e}. writeReply n k = AbortedCall)"
  shows "results (runOne e n task s) = results s \<and> results (stopAll s) = results s"
proof -
  have stop: "results (stopAll s) = results s" by (simp add: stopAll_def)
  show ?thesis
  proof (cases "api_write (apiProfiles e)")
    case None
    then show ?thesis using stop by (simp add: runOne_def)
  next
    case (Some wcfg)
    let ?s1 = "s\<lparr>runningIds := insert (t_id task) (runningIds s),
                 abortMap := insert (t_id task) (abortMap s)\<rparr>"
    let ?se = "runSearch e n task ?s1"
    show ?thesis
    proof (cases "snd ?se")
      case (Inl f)
      then show ?thesis using Some stop runSearch_results[of e n task ?s1]
        by (simp add: runOne_def Let_def cleanup_def)
    next
      case (Inr so)
      with assms runSearch_aborted[of task n e ?s1]
      obtain k where k: "k \<in> {1..variantCount e}" "writeReply n k = AbortedCall" by auto
      then have "\<not> isResolved (writeReply n k)" by (simp add: isResolved_def)
      from runWrite_failed[OF k(1) this, of task wcfg so "results s" "fst ?se"]
      obtain f where "results (fst (runWrite e n task wcfg so (results s) (fst ?se))) = results (fst ?se)"
        "snd (runWrite e n task wcfg so (results s) (fst ?se)) = Some f" by blast
      then show ?thesis using Inr Some stop runSearch_results[of e n task ?s1]
        by (simp add: runOne_def Let_def cleanup_def)
    qed
  qed
qed

theorem aborted_run_leaves_results_witness:
  "results (runOne (exampleEnv 2) abortNet exampleTask storedUi) = results storedUi
   \<and> results (stopAll storedUi) = results storedUi"
proof -
  have "writeReply abortNet 1 = AbortedCall"
    by (simp add: abortNet_def okNet_def)
  moreover have "1 \<in> {1..variantCount (exampleEnv 2)}"
    by (simp add: exampleEnv_def variantCount_def)
  ultimately have "\<exists>k\<in>{1..variantCount (exampleEnv 2)}. writeReply abortNet k = AbortedCall"
    by blast
  then show ?thesis by (intro aborted_run_leaves_results disjI2)
qed









section \<open>The results collection\<close>



section \<open>Reading the store\<close>

text \<open>
  Claim C10 says that \<open>readLS\<close> never throws. Only the parsing is guarded: the read of the
  store is evaluated outside the \<open>try\<close> block, and where that read throws, \<open>readLS\<close>
  throws.
\<close>

theorem readLS_throws_when_store_throws:
  "readLS (\<lambda>raw. None) True (\<lambda>k. Inl SecurityError) K_results (0::nat) = Inl SecurityError"
  by (simp add: readLS_def)

text \<open>
  Claim C10 as the code has it: \<open>readLS\<close> never propagates a parse error. It returns the
  fallback when there is no window, when nothing is stored under the key and when the
  stored string is not valid JSON, and it returns a value whenever the read of the store
  succeeds. An exception of the read itself is not caught.
\<close>

theorem readLS_fallback:
  "(\<not> w \<longrightarrow> readLS parse w getItem key fb = Inr fb)
   \<and> (getItem key = Inr None \<or> (\<exists>raw. getItem key = Inr (Some raw) \<and> parse raw = None)
        \<longrightarrow> readLS parse w getItem key fb = Inr fb)
   \<and> ((\<exists>raw. getItem key = Inr raw) \<longrightarrow> (\<exists>v. readLS parse w getItem key fb = Inr v))
   \<and> (w \<and> getItem key = Inl err \<longrightarrow> readLS parse w getItem key fb = Inl err)"
  by (auto simp: readLS_def safeParse_def split: option.splits)

theorem readLS_fallback_witness:
  "readLS (\<lambda>raw. None) True (\<lambda>k. Inr (Some (str ''{''))) K_results (0::nat) = Inr 0
   \<and> readLS (\<lambda>raw. None) True (\<lambda>k. Inr None) K_results (0::nat) = Inr 0
   \<and> readLS (\<lambda>raw. None) False (\<lambda>k. Inl SecurityError) K_results (0::nat) = Inr 0"
  using readLS_fallback[of True "\<lambda>raw. None" "\<lambda>k. Inr (Some (str ''{''))" K_results "0::nat"]
    readLS_fallback[of True "\<lambda>raw. None" "\<lambda>k. Inr None" K_results "0::nat"]
    readLS_fallback[of False "\<lambda>raw. None" "\<lambda>k. Inl SecurityError" K_results "0::nat"]
  by simp

section \<open>Segmenting\<close>

text \<open>
  Claim C9: the three lines \<open>1. A\<close>, \<open>2) B\<close> and \<open>3) C\<close>, the last one written with the
  full-width closing parenthesis (code unit \<open>0xFF09\<close>), are split into the three segments
  \<open>A\<close>, \<open>B\<close>, \<open>C\<close> with the indices 1, 2, 3.
\<close>

theorem segment_three_items:
  "splitNumberedBlocks (str ''1. A'' @ [0xA] @ str ''2) B'' @ [0xA, 0x33, 0xFF09] @ str '' C'')
   = [\<lparr>index = 1, blockText = str ''A''\<rparr>, \<lparr>index = 2, blockText = str ''B''\<rparr>,
      \<lparr>index = 3, blockText = str ''C''\<rparr>]"
  by (simp add: rx_eval split_eval)

text \<open>
  Claim C6 lists the separators of a numbering token: the two periods, the two closing
  parentheses, the enumeration comma and the hyphen, and says no other line starts a
  segment. The character class of the source also contains the bar that was meant to
  separate its alternatives, so a line such as \<open>1|A\<close> is a numbering line too: the text
  \<open>"1|A\n2|B"\<close> is split into two segments, \<open>A\<close> and \<open>B\<close>, with the tokens stripped.
\<close>

theorem bar_counts_as_separator:
  "splitNumberedBlocks (str ''1|A'' @ [0xA] @ str ''2|B'')
   = [\<lparr>index = 1, blockText = str ''A''\<rparr>, \<lparr>index = 2, blockText = str ''B''\<rparr>]"
  by (simp add: rx_eval split_eval)

section \<open>Image locators\<close>

text \<open>
  Claim C8 says that \<open>![cover](https://cdn.example.com/img/a.png)\<close> yields the one locator
  \<open>https://cdn.example.com/img/a.png\<close>. The scan for bare URLs accepts parentheses in a
  path, so it finds the same address with the closing parenthesis of the Markdown syntax
  attached; that text contains \<open>img/\<close> and passes the filter. The function returns two
  locators.
\<close>

theorem extract_cover_yields_two:
  "extractImageUrls (str ''![cover](https://cdn.example.com/img/a.png)'')
   = Some [str ''https://cdn.example.com/img/a.png'', str ''https://cdn.example.com/img/a.png)'']"
  by (simp add: rx_eval extract_eval)

section \<open>Sanitizing\<close>

subsection \<open>The last step: blank runs and trimming\<close>

lemma ends_NL:
  "ends NL noFlags st =
     (case rest st of [] \<Rightarrow> [] | x # xs \<Rightarrow> if x = 0xA then [st\<lparr>before := Some x, rest := xs\<rparr>] else [])"
  by (auto simp: NL_def step_def sameChar_def noFlags_def split: list.splits)

lemma iter_run_head:
  assumes body: "\<And>st. body st =
     (case rest st of [] \<Rightarrow> [] | x # xs \<Rightarrow> if x = 0xA then [st\<lparr>before := Some x, rest := xs\<rparr>] else [])"
  shows "length (rest st) \<le> n \<Longrightarrow>
   \<exists>es. iter n True body st =
     (if \<exists>r. rest st = 0xA # r
      then st\<lparr>before := Some 0xA, rest := dropWhile (\<lambda>c. c = 0xA) (rest st)\<rparr> else st) # es"
proof (induction n arbitrary: st)
  case 0
  then show ?case by simp
next
  case (Suc n)
  show ?case
  proof (cases "rest st")
    case Nil
    then show ?thesis by (simp add: body)
  next
    case (Cons x xs)
    show ?thesis
    proof (cases "x = 0xA")
      case False
      with Cons show ?thesis by (simp add: body)
    next
      case True
      let ?st' = "st\<lparr>before := Some x, rest := xs\<rparr>"
      from Suc.prems Cons have "length (rest ?st') \<le> n" by simp
      from Suc.IH[OF this] obtain es where
        es: "iter n True body ?st' =
          (if \<exists>r. rest ?st' = 0xA # r
           then ?st'\<lparr>before := Some 0xA, rest := dropWhile (\<lambda>c. c = 0xA) (rest ?st')\<rparr> else ?st') # es"
        by blast
      have "body st = [?st']" using Cons True by (simp add: body)
      then show ?thesis using Cons True es
        by (cases xs) auto
    qed
  qed
qed

lemma iter_NL_head:
  "length (rest st) \<le> n \<Longrightarrow>
   \<exists>es. iter n True (ends NL noFlags) st =
     (if \<exists>r. rest st = 0xA # r
      then st\<lparr>before := Some 0xA, rest := dropWhile (\<lambda>c. c = 0xA) (rest st)\<rparr> else st) # es"
  by (rule iter_run_head) (rule ends_NL)

lemma matchAt_blankRun:
  "matchAt blankRunRegex noFlags p s =
     (if \<exists>r. s = 0xA # 0xA # 0xA # r
      then Some \<lparr>before = Some 0xA, rest = dropWhile (\<lambda>c. c = 0xA) s, cap = None\<rparr>
      else None)"
proof (cases "\<exists>r. s = 0xA # 0xA # 0xA # r")
  case True
  then obtain r where s: "s = 0xA # 0xA # 0xA # r" by blast
  let ?st = "\<lparr>before = Some 0xA, rest = r, cap = None\<rparr>"
  from iter_NL_head[of ?st "length r"] obtain es where
    "iter (length r) True (ends NL noFlags) ?st =
       (if \<exists>r'. r = 0xA # r'
        then \<lparr>before = Some 0xA, rest = dropWhile (\<lambda>c. c = 0xA) r, cap = None\<rparr> else ?st) # es"
    by auto
  then show ?thesis using s
    by (cases r) (auto simp: matchAt_def blankRunRegex_def ends_NL)
next
  case False
  then show ?thesis
    by (auto simp: matchAt_def blankRunRegex_def ends_NL split: list.splits)
qed


lemma scan_skip:
  "scan r f p (xs @ ys) (length xs) = scan r f (if xs = [] then p else Some (last xs)) ys 0"
  by (induction xs arbitrary: p) simp_all

lemma scan_blank_indep:
  "scan blankRunRegex noFlags p s k = scan blankRunRegex noFlags p' s k"
  by (cases s) (simp_all add: matchAt_blankRun)

lemma collapse_Nil: "collapseBlankRuns [] = []"
  by (simp add: collapseBlankRuns_def replaceAll_def matchAt_blankRun)

lemma collapse_short:
  assumes "\<not> (\<exists>r. c # cs = 0xA # 0xA # 0xA # r)"
  shows "collapseBlankRuns (c # cs) = c # collapseBlankRuns cs"
proof -
  have "matchAt blankRunRegex noFlags None (c # cs) = None"
    using assms by (auto simp: matchAt_blankRun)
  then have "scan blankRunRegex noFlags None (c # cs) 0
      = Keep c # scan blankRunRegex noFlags (Some c) cs 0"
    by simp
  also have "scan blankRunRegex noFlags (Some c) cs 0 = scan blankRunRegex noFlags None cs 0"
    by (rule scan_blank_indep)
  finally show ?thesis by (simp add: collapseBlankRuns_def replaceAll_def)
qed

lemma collapse_long:
  assumes s: "s = 0xA # 0xA # 0xA # r"
  shows "collapseBlankRuns s = [0xA, 0xA] @ collapseBlankRuns (dropWhile (\<lambda>c. c = 0xA) s)"
proof -
  let ?P = "\<lambda>c::nat. c = 0xA"
  let ?d = "dropWhile ?P s"
  let ?t = "takeWhile ?P s"
  have split: "s = ?t @ ?d" by simp
  have len: "length s - length ?d = length ?t"
    by (metis add_diff_cancel_right' length_append split)
  have t3: "?t = 0xA # 0xA # 0xA # takeWhile ?P r" using s by simp
  then have tl: "tl s = tl ?t @ ?d" "length ?t - 1 = length (tl ?t)" "length ?t \<noteq> 0"
    using s by simp_all
  have m: "matchAt blankRunRegex noFlags None s = Some \<lparr>before = Some 0xA, rest = ?d, cap = None\<rparr>"
    using s by (simp add: matchAt_blankRun)
  have "scan blankRunRegex noFlags None s 0
      = Match ?t None # scan blankRunRegex noFlags (Some 0xA) (tl s) (length ?t - 1)"
  proof -
    have "scan blankRunRegex noFlags None (0xA # tl s) 0
      = Match (take (length (0xA # tl s) - length ?d) (0xA # tl s)) None
          # scan blankRunRegex noFlags (Some 0xA) (tl s) (length (0xA # tl s) - length ?d - 1)"
      using m s len tl(3) by (simp add: Let_def)
    moreover have "0xA # tl s = s" using s by simp
    moreover have "take (length ?t) s = ?t" by (metis append_eq_conv_conj split)
    ultimately show ?thesis using len by simp
  qed
  also have "scan blankRunRegex noFlags (Some 0xA) (tl s) (length ?t - 1)
      = scan blankRunRegex noFlags (if tl ?t = [] then Some 0xA else Some (last (tl ?t))) ?d 0"
    unfolding tl(2) by (subst tl(1)) (rule scan_skip)
  also have "\<dots> = scan blankRunRegex noFlags None ?d 0"
    by (rule scan_blank_indep)
  finally show ?thesis by (simp add: collapseBlankRuns_def replaceAll_def)
qed

lemma dropWhile_run:
  "b = [] \<or> hd b \<noteq> x \<Longrightarrow> dropWhile (\<lambda>c. c = x) (replicate m x @ b) = b"
proof (induction m)
  case 0
  then show ?case by (cases b) auto
next
  case (Suc m)
  then show ?case by simp
qed

lemma collapse_run:
  assumes b: "b = [] \<or> hd b \<noteq> 0xA"
  shows "collapseBlankRuns (replicate m 0xA @ b) = replicate (min m 2) 0xA @ collapseBlankRuns b"
proof -
  have one: "collapseBlankRuns (0xA # b) = 0xA # collapseBlankRuns b"
    using b by (intro collapse_short) auto
  have two: "collapseBlankRuns (0xA # 0xA # b) = 0xA # 0xA # collapseBlankRuns b"
    using b one by (subst collapse_short) auto
  consider "m = 0" | "m = 1" | "m = 2" | j where "m = Suc (Suc (Suc j))"
    by (metis One_nat_def Suc_1 not0_implies_Suc)
  then show ?thesis
  proof cases
    case 4
    let ?s = "replicate m 0xA @ b"
    have s: "?s = 0xA # 0xA # 0xA # (replicate j 0xA @ b)" using 4 by simp
    have "dropWhile (\<lambda>c. c = 0xA) ?s = b" using b by (rule dropWhile_run)
    with collapse_long[OF s] 4 show ?thesis by (simp add: numeral_2_eq_2)
  qed (simp_all add: one two numeral_2_eq_2)
qed

lemma run_split:
  fixes a :: jstr
  assumes "a \<noteq> []" "hd a = 0xA" "last a \<noteq> 0xA"
  obtains m a2 where "a = replicate (Suc m) 0xA @ a2" "a2 \<noteq> []" "hd a2 \<noteq> 0xA"
    "last a2 = last a" "length a2 < length a"
proof -
  let ?P = "\<lambda>c::nat. c = 0xA"
  let ?t = "takeWhile ?P a" and ?d = "dropWhile ?P a"
  have t: "?t = replicate (length ?t) 0xA"
    by (metis (mono_tags, lifting) replicate_length_same set_takeWhileD)
  have t0: "?t \<noteq> []" using assms(1,2) by (cases a) auto
  have dn: "?d \<noteq> []"
  proof
    assume "?d = []"
    then have "\<forall>x\<in>set a. x = 0xA" by (simp add: dropWhile_eq_Nil_conv)
    with assms(1,3) show False using last_in_set by blast
  qed
  have hd: "hd ?d \<noteq> 0xA" using dn hd_dropWhile by blast
  have a: "a = ?t @ ?d" by simp
  obtain m where m: "length ?t = Suc m" using t0 by (cases ?t) auto
  have "a = replicate (Suc m) 0xA @ ?d" using a t m by metis
  moreover have "last ?d = last a" using a dn by (metis last_appendR)
  moreover have "length ?d < length a" using t0 by (metis a length_append length_greater_0_conv less_add_same_cancel2)
  ultimately show ?thesis using that dn hd by blast
qed

lemma collapse_runs:
  assumes "a = [] \<or> last a \<noteq> 0xA" "b = [] \<or> hd b \<noteq> 0xA"
  shows "collapseBlankRuns (a @ replicate n 0xA @ b)
       = collapseBlankRuns a @ replicate (min n 2) 0xA @ collapseBlankRuns b"
  using assms(1)
proof (induction a rule: length_induct)
  case (1 a)
  show ?case
  proof (cases a)
    case Nil
    then show ?thesis using collapse_run[OF assms(2)] by (simp add: collapse_Nil)
  next
    case (Cons c a')
    show ?thesis
    proof (cases "c = 0xA")
      case False
      have a': "a' = [] \<or> last a' \<noteq> 0xA" using "1.prems" Cons by auto
      have "collapseBlankRuns (a' @ replicate n 0xA @ b)
          = collapseBlankRuns a' @ replicate (min n 2) 0xA @ collapseBlankRuns b"
        using "1.IH"[rule_format, of a'] Cons a' by simp
      moreover have "collapseBlankRuns (c # (a' @ replicate n 0xA @ b))
          = c # collapseBlankRuns (a' @ replicate n 0xA @ b)"
        using False by (intro collapse_short) simp
      moreover have "collapseBlankRuns (c # a') = c # collapseBlankRuns a'"
        using False by (intro collapse_short) simp
      ultimately show ?thesis using Cons by simp
    next
      case True
      have "a \<noteq> []" "hd a = 0xA" "last a \<noteq> 0xA" using Cons True "1.prems" by auto
      then obtain m a2 where a2: "a = replicate (Suc m) 0xA @ a2" "a2 \<noteq> []" "hd a2 \<noteq> 0xA"
        "last a2 = last a" "length a2 < length a" by (rule run_split)
      have l2: "a2 = [] \<or> last a2 \<noteq> 0xA" using a2 \<open>last a \<noteq> 0xA\<close> by simp
      have ih: "collapseBlankRuns (a2 @ replicate n 0xA @ b)
          = collapseBlankRuns a2 @ replicate (min n 2) 0xA @ collapseBlankRuns b"
        using "1.IH"[rule_format, of a2] a2(5) l2 by blast
      have h1: "a2 @ replicate n 0xA @ b = [] \<or> hd (a2 @ replicate n 0xA @ b) \<noteq> 0xA"
        using a2(2,3) by simp
      have "collapseBlankRuns (a @ replicate n 0xA @ b)
          = collapseBlankRuns (replicate (Suc m) 0xA @ (a2 @ replicate n 0xA @ b))"
        by (subst a2(1)) simp
      also have "\<dots> = replicate (min (Suc m) 2) 0xA @ collapseBlankRuns (a2 @ replicate n 0xA @ b)"
        using h1 by (rule collapse_run)
      also have "\<dots> = (replicate (min (Suc m) 2) 0xA @ collapseBlankRuns a2)
                        @ replicate (min n 2) 0xA @ collapseBlankRuns b"
        using ih by simp
      also have "replicate (min (Suc m) 2) 0xA @ collapseBlankRuns a2
               = collapseBlankRuns (replicate (Suc m) 0xA @ a2)"
        using a2(3) by (intro collapse_run[symmetric]) simp
      finally show ?thesis using a2(1) by simp
    qed
  qed
qed


lemma trimEnd_decomp: "trimEnd x @ rev (takeWhile isSpace (rev x)) = x"
proof -
  have "rev (takeWhile isSpace (rev x) @ dropWhile isSpace (rev x)) = x" by simp
  then show ?thesis unfolding trimEnd_def rev_append .
qed



lemma trimStart_hd: "trimStart s \<noteq> [] \<Longrightarrow> \<not> isSpace (hd (trimStart s))"
  unfolding trimStart_def by (rule hd_dropWhile)

lemma trimEnd_last: "trimEnd s \<noteq> [] \<Longrightarrow> \<not> isSpace (last (trimEnd s))"
proof -
  assume n: "trimEnd s \<noteq> []"
  then have "dropWhile isSpace (rev s) \<noteq> []" by (simp add: trimEnd_def)
  then have "\<not> isSpace (hd (dropWhile isSpace (rev s)))" by (rule hd_dropWhile)
  moreover have "last (trimEnd s) = hd (dropWhile isSpace (rev s))"
    using n by (simp add: trimEnd_def last_rev)
  ultimately show ?thesis by simp
qed

lemma trimEnd_hd: "trimEnd x \<noteq> [] \<Longrightarrow> hd (trimEnd x) = hd x"
  by (metis hd_append2 trimEnd_decomp)

lemma trim_ends:
  "trim s = [] \<or> (\<not> isSpace (hd (trim s)) \<and> \<not> isSpace (last (trim s)))"
proof (cases "trim s = []")
  case True
  then show ?thesis by simp
next
  case False
  then have n: "trimEnd (trimStart s) \<noteq> []" by (simp add: trim_def)
  then have "trimStart s \<noteq> []" by (auto simp: trimEnd_def)
  then have "\<not> isSpace (hd (trimStart s))" by (rule trimStart_hd)
  with trimEnd_hd[OF n] have "\<not> isSpace (hd (trim s))" by (simp add: trim_def)
  moreover have "\<not> isSpace (last (trim s))" using trimEnd_last[OF n] by (simp add: trim_def)
  ultimately show ?thesis by simp
qed












text \<open>
  Claim C7 says that the last step collapses three or more consecutive blank lines and
  leaves one or two blank lines as they are. The expression \<open>\n{3,}\<close> counts newline
  characters, not blank lines: two blank lines between \<open>a\<close> and \<open>b\<close> are three newlines,
  and they are collapsed to one blank line.
\<close>

theorem two_blank_lines_collapsed:
  "collapseAndTrim (str ''a'' @ [0xA, 0xA, 0xA] @ str ''b'') = str ''a'' @ [0xA, 0xA] @ str ''b''"
  by (simp add: rx_eval strip_eval)

text \<open>
  Claim C7 as the code has it: a maximal run of \<open>n\<close> newline characters inside the text
  becomes a run of \<open>min n 2\<close>: three or more newlines (two or more blank lines) become two
  newlines (one blank line), one or two newlines stay. The result is then trimmed, and
  the output of the step neither starts nor ends with white space.
\<close>

theorem final_step_runs:
  assumes "a = [] \<or> last a \<noteq> 0xA" and "b = [] \<or> hd b \<noteq> 0xA"
  shows "collapseBlankRuns (a @ replicate n 0xA @ b)
           = collapseBlankRuns a @ replicate (min n 2) 0xA @ collapseBlankRuns b
       \<and> collapseAndTrim (a @ replicate n 0xA @ b)
           = trim (collapseBlankRuns a @ replicate (min n 2) 0xA @ collapseBlankRuns b)
       \<and> (collapseAndTrim (a @ replicate n 0xA @ b) = []
            \<or> (\<not> isSpace (hd (collapseAndTrim (a @ replicate n 0xA @ b)))
                \<and> \<not> isSpace (last (collapseAndTrim (a @ replicate n 0xA @ b)))))"
proof -
  have 1: "collapseBlankRuns (a @ replicate n 0xA @ b)
           = collapseBlankRuns a @ replicate (min n 2) 0xA @ collapseBlankRuns b"
    using assms by (rule collapse_runs)
  then have 2: "collapseAndTrim (a @ replicate n 0xA @ b)
           = trim (collapseBlankRuns a @ replicate (min n 2) 0xA @ collapseBlankRuns b)"
    by (simp only: collapseAndTrim_def)
  have 3: "collapseAndTrim (a @ replicate n 0xA @ b) = []
            \<or> (\<not> isSpace (hd (collapseAndTrim (a @ replicate n 0xA @ b)))
                \<and> \<not> isSpace (last (collapseAndTrim (a @ replicate n 0xA @ b))))"
    unfolding collapseAndTrim_def by (rule trim_ends)
  from 1 2 3 show ?thesis by (intro conjI)
qed

theorem final_step_runs_witness:
  "collapseBlankRuns (str '' a'' @ replicate 5 0xA @ str ''b '')
     = str '' a'' @ [0xA, 0xA] @ str ''b ''
   \<and> collapseBlankRuns (str '' a'' @ replicate 2 0xA @ str ''b '')
     = str '' a'' @ [0xA, 0xA] @ str ''b ''
   \<and> collapseAndTrim (str '' a'' @ replicate 5 0xA @ str ''b '')
     = str ''a'' @ [0xA, 0xA] @ str ''b''"
proof -
  have a: "str '' a'' = [] \<or> last (str '' a'') \<noteq> 0xA" by (simp add: str_def)
  have b: "str ''b '' = [] \<or> hd (str ''b '') \<noteq> 0xA" by (simp add: str_def)
  have ca: "collapseBlankRuns (str '' a'') = str '' a''"
    by (simp add: rx_eval strip_eval)
  have cb: "collapseBlankRuns (str ''b '') = str ''b ''"
    by (simp add: rx_eval strip_eval)
  have t: "trim (str '' a'' @ [0xA, 0xA] @ str ''b '') = str ''a'' @ [0xA, 0xA] @ str ''b''"
    by (simp add: str_def trim_def trimStart_def trimEnd_def isSpace_def)
  have r5: "replicate (min 5 2) (0xA::nat) = [0xA, 0xA]" "replicate (min 2 2) (0xA::nat) = [0xA, 0xA]"
    by (simp_all add: numeral_2_eq_2)
  show ?thesis
    using final_step_runs[OF a b, of 5] final_step_runs[OF a b, of 2]
    by (simp only: ca cb t r5 simp_thms)
qed

subsection \<open>Applying the sanitizer twice\<close>








end
